theory Spec2Isabelle
  imports Main
begin

section \<open>Python string operations used by validate-claude-md.py\<close>

text \<open>
  A document is a \<^typ>\<open>string\<close>. Characters are HOL's 8-bit characters and the
  character classes below are the ASCII ones: the model reads documents as ASCII text.
\<close>

abbreviation NL :: char where
  "NL \<equiv> CHR 0x0A"

text \<open>\<^verbatim>\<open>str.isspace\<close> on ASCII: tab, LF, VT, FF, CR, FS, GS, RS, US and space.\<close>

definition is_space :: "char \<Rightarrow> bool" where
  "is_space c = (c \<in> set [CHR 0x09, CHR 0x0A, CHR 0x0B, CHR 0x0C, CHR 0x0D,
                           CHR 0x1C, CHR 0x1D, CHR 0x1E, CHR 0x1F, CHR 0x20])"

text \<open>\<^verbatim>\<open>s.strip()\<close>\<close>

definition strip :: "string \<Rightarrow> string" where
  "strip s = rev (dropWhile is_space (rev (dropWhile is_space s)))"

text \<open>\<^verbatim>\<open>s.strip(chars)\<close>\<close>

definition strip_chars :: "string \<Rightarrow> string \<Rightarrow> string" where
  "strip_chars cs s =
     rev (dropWhile (\<lambda>c. c \<in> set cs) (rev (dropWhile (\<lambda>c. c \<in> set cs) s)))"

text \<open>\<^verbatim>\<open>s.startswith(p)\<close>\<close>

definition startswith :: "string \<Rightarrow> string \<Rightarrow> bool" where
  "startswith s p = (take (length p) s = p)"

text \<open>\<^verbatim>\<open>sub in s\<close>\<close>

fun str_in :: "string \<Rightarrow> string \<Rightarrow> bool" where
  "str_in sub [] = (sub = [])"
| "str_in sub (c # cs) = (startswith (c # cs) sub \<or> str_in sub cs)"

text \<open>\<^verbatim>\<open>s.split("\n")\<close>: never empty, one more piece than there are newlines.\<close>

fun split_nl :: "string \<Rightarrow> string list" where
  "split_nl [] = [[]]"
| "split_nl (c # cs) =
     (if c = NL then [] # split_nl cs
      else (case split_nl cs of
              [] \<Rightarrow> [[c]]
            | l # ls \<Rightarrow> (c # l) # ls))"

text \<open>\<^verbatim>\<open>"\n".join(ls)\<close>\<close>

fun join_nl :: "string list \<Rightarrow> string" where
  "join_nl [] = []"
| "join_nl [l] = l"
| "join_nl (l # ls) = l @ NL # join_nl ls"

text \<open>\<^verbatim>\<open>s.lower()\<close> on ASCII.\<close>

definition lower_char :: "char \<Rightarrow> char" where
  "lower_char c =
     (let n = (of_char c :: nat)
      in if 65 \<le> n \<and> n \<le> 90 then char_of (n + 32) else c)"

definition lower :: "string \<Rightarrow> string" where
  "lower s = map lower_char s"

text \<open>\<^verbatim>\<open>s.count(c)\<close> for a one-character argument.\<close>

definition count_char :: "char \<Rightarrow> string \<Rightarrow> nat" where
  "count_char c s = length (filter (\<lambda>d. d = c) s)"

text \<open>The decimal rendering of a non-negative integer inside an f-string.\<close>

definition digit_char :: "nat \<Rightarrow> char" where
  "digit_char d = char_of (48 + d)"

fun str_nat :: "nat \<Rightarrow> string" where
  "str_nat n = (if n < 10 then [digit_char n] else str_nat (n div 10) @ [digit_char (n mod 10)])"

declare str_nat.simps [simp del]

section \<open>Validation issues\<close>

text \<open>
  \<^verbatim>\<open>class ValidationIssue\<close>: four fields, the location defaulting to \<^verbatim>\<open>None\<close>.
  Validators receive the shared issue list and append to it; the model returns the
  list after the call.
\<close>

record ValidationIssue =
  category :: string
  level :: string
  message :: string
  location :: "string option"

definition mk_issue :: "string \<Rightarrow> string \<Rightarrow> string \<Rightarrow> string \<Rightarrow> ValidationIssue" where
  "mk_issue c l m loc = \<lparr>category = c, level = l, message = m, location = Some loc\<rparr>"

section \<open>validate_frontmatter\<close>

definition missing_opening :: ValidationIssue where
  "missing_opening =
     mk_issue ''frontmatter'' ''error'' ''Missing opening YAML fence (---)'' ''line 1''"

definition missing_closing :: ValidationIssue where
  "missing_closing =
     mk_issue ''frontmatter'' ''error'' ''Missing closing YAML fence (---)'' ''frontmatter''"

definition missing_name :: ValidationIssue where
  "missing_name =
     mk_issue ''frontmatter'' ''warning'' ''Missing 'name' field in frontmatter''
       ''frontmatter''"

definition missing_description :: ValidationIssue where
  "missing_description =
     mk_issue ''frontmatter'' ''warning'' ''Missing 'description' field in frontmatter''
       ''frontmatter''"

definition angle_brackets :: ValidationIssue where
  "angle_brackets =
     mk_issue ''frontmatter'' ''warning''
       ''Angle brackets detected in frontmatter (use &lt; or &gt; instead)'' ''frontmatter''"

text \<open>
  The loop \<^verbatim>\<open>for i, line in enumerate(lines[1:], 1)\<close>: the index of the first line
  whose stripped text is the fence, or \<^verbatim>\<open>-1\<close> (here \<open>None\<close>).
\<close>

fun find_closing :: "nat \<Rightarrow> string list \<Rightarrow> nat option" where
  "find_closing i [] = None"
| "find_closing i (line # rest) =
     (if strip line = ''---'' then Some i else find_closing (Suc i) rest)"

text \<open>The result is the returned flag and the issue list after the call.\<close>

definition validate_frontmatter ::
    "string \<Rightarrow> ValidationIssue list \<Rightarrow> bool \<Rightarrow> bool \<times> ValidationIssue list" where
  "validate_frontmatter content issues require_frontmatter =
     (let lines = split_nl content in
      if \<not> require_frontmatter then (True, issues)
      else if \<not> startswith content ''---'' then (False, issues @ [missing_opening])
      else
        (case find_closing 1 (drop 1 lines) of
           None \<Rightarrow> (False, issues @ [missing_closing])
         | Some frontmatter_end \<Rightarrow>
             (let frontmatter = join_nl (take (frontmatter_end - 1) (drop 1 lines));
                  issues1 = (if \<not> str_in ''name:'' frontmatter
                             then issues @ [missing_name] else issues);
                  issues2 = (if \<not> str_in ''description:'' frontmatter
                             then issues1 @ [missing_description] else issues1);
                  issues3 = (if str_in ''<'' frontmatter \<or> str_in ''>'' frontmatter
                             then issues2 @ [angle_brackets] else issues2)
              in (True, issues3))))"

section \<open>validate_structure\<close>

definition REQUIRED_SECTIONS :: "(string \<times> string list) list" where
  "REQUIRED_SECTIONS =
     [(''global'', []), (''project'', []), (''local'', []), (''rules'', [''## Purpose''])]"

definition no_headings :: ValidationIssue where
  "no_headings =
     mk_issue ''structure'' ''warning'' ''No section headings (##) found'' ''entire file''"

definition missing_section :: "string \<Rightarrow> ValidationIssue" where
  "missing_section section' =
     mk_issue ''structure'' ''warning'' (''Missing required section: '' @ section') ''sections''"

definition headings :: "string list \<Rightarrow> nat list" where
  "headings lines = filter (\<lambda>i. startswith (lines ! i) ''##'') [0 ..< length lines]"

fun required_loop :: "string list \<Rightarrow> string \<Rightarrow> ValidationIssue list \<Rightarrow> ValidationIssue list" where
  "required_loop [] content issues = issues"
| "required_loop (section' # rest) content issues =
     (if \<not> str_in section' content
      then required_loop rest content (issues @ [missing_section section'])
      else required_loop rest content issues)"

definition validate_structure ::
    "string \<Rightarrow> string \<Rightarrow> ValidationIssue list \<Rightarrow> ValidationIssue list" where
  "validate_structure content claude_type issues =
     (let lines = split_nl content;
          issues1 = (if headings lines = [] then issues @ [no_headings] else issues);
          required = (case map_of REQUIRED_SECTIONS claude_type of
                        None \<Rightarrow> [] | Some r \<Rightarrow> r)
      in required_loop required content issues1)"

section \<open>validate_best_practices\<close>

definition LINE_COUNT_TARGETS :: "(string \<times> nat \<times> nat) list" where
  "LINE_COUNT_TARGETS =
     [(''global'', (50, 150)), (''project'', (100, 300)), (''local'', (0, 50)),
      (''rules'', (20, 100))]"

definition line_count_issue :: "nat \<Rightarrow> nat \<Rightarrow> nat \<Rightarrow> ValidationIssue" where
  "line_count_issue line_count min_lines max_lines =
     mk_issue ''best_practices'' ''warning''
       (''Line count: '' @ str_nat line_count @ '' (target: '' @ str_nat min_lines @ ''-''
          @ str_nat max_lines @ ''). Consider using references/ for detailed content.'')
       ''entire file''"

definition bullet_issue :: "nat \<Rightarrow> ValidationIssue" where
  "bullet_issue n =
     mk_issue ''best_practices'' ''info''
       (''Found '' @ str_nat n @
        '' sections with bullet lists containing pipes - consider using Markdown tables instead'')
       ''formatting''"

text \<open>
  The scan for bullet lists: the state is \<^verbatim>\<open>bullet_sections\<close>, \<^verbatim>\<open>current_section\<close>
  and \<^verbatim>\<open>in_code_block\<close>; the value is \<^verbatim>\<open>bullet_sections\<close> when the lines run out.
\<close>

fun bullet_loop ::
    "string list \<Rightarrow> string list list \<Rightarrow> string list \<Rightarrow> bool \<Rightarrow> string list list" where
  "bullet_loop [] bullet_sections current_section in_code_block = bullet_sections"
| "bullet_loop (line # rest) bullet_sections current_section in_code_block =
     (if startswith (strip line) ''```''
        then bullet_loop rest bullet_sections current_section (\<not> in_code_block)
      else if in_code_block
        then bullet_loop rest bullet_sections current_section in_code_block
      else if startswith (strip line) ''- '' \<and> str_in ''|'' line
        then bullet_loop rest bullet_sections (current_section @ [line]) in_code_block
      else if current_section \<noteq> []
        then bullet_loop rest
               (if length current_section \<ge> 3 then bullet_sections @ [current_section]
                else bullet_sections)
               [] in_code_block
      else bullet_loop rest bullet_sections current_section in_code_block)"

definition validate_best_practices ::
    "string \<Rightarrow> string \<Rightarrow> ValidationIssue list \<Rightarrow> ValidationIssue list" where
  "validate_best_practices content claude_type issues =
     (let lines = split_nl content;
          line_count = length lines;
          (min_lines, max_lines) = (case map_of LINE_COUNT_TARGETS claude_type of
                                      None \<Rightarrow> (0, 500) | Some t \<Rightarrow> t);
          issues1 = (if line_count > max_lines
                     then issues @ [line_count_issue line_count min_lines max_lines]
                     else issues);
          bullet_sections = bullet_loop lines [] [] False
      in if bullet_sections \<noteq> []
         then issues1 @ [bullet_issue (length bullet_sections)]
         else issues1)"

section \<open>Regular expressions\<close>

text \<open>
  The patterns of the script use literals, character classes, alternation, grouping and
  the greedy operators \<^verbatim>\<open>*\<close>, \<^verbatim>\<open>+\<close> and \<^verbatim>\<open>?\<close>. A pattern is a term of
  \<open>regex\<close>; \<open>rmatch r s\<close> lists, in the order a backtracking matcher tries them, the
  rests of \<open>s\<close> after each way \<open>r\<close> matches at the start of \<open>s\<close>.
\<close>

datatype regex =
    Atom "char \<Rightarrow> bool"
  | Eps
  | Seq regex regex
  | Alt regex regex
  | Star regex

text \<open>
  Greedy repetition: one more round on every rest that is shorter (a round that consumes
  nothing ends the repetition), then the option of stopping. The fuel is the length of
  the text, which bounds the number of rounds that consume.
\<close>

primrec star_iter :: "nat \<Rightarrow> (string \<Rightarrow> string list) \<Rightarrow> string \<Rightarrow> string list" where
  "star_iter 0 f s = [s]"
| "star_iter (Suc n) f s =
     concat (map (star_iter n f) (filter (\<lambda>t. length t < length s) (f s))) @ [s]"

fun rmatch :: "regex \<Rightarrow> string \<Rightarrow> string list" where
  "rmatch (Atom p) s = (case s of [] \<Rightarrow> [] | c # t \<Rightarrow> if p c then [t] else [])"
| "rmatch Eps s = [s]"
| "rmatch (Seq a b) s = concat (map (\<lambda>t. rmatch b t) (rmatch a s))"
| "rmatch (Alt a b) s = rmatch a s @ rmatch b s"
| "rmatch (Star a) s = star_iter (length s) (\<lambda>t. rmatch a t) s"

definition Plus :: "regex \<Rightarrow> regex" where
  "Plus r = Seq r (Star r)"

definition Opt :: "regex \<Rightarrow> regex" where
  "Opt r = Alt r Eps"

definition seqs :: "regex list \<Rightarrow> regex" where
  "seqs rs = foldr Seq rs Eps"

fun alts :: "regex list \<Rightarrow> regex" where
  "alts [] = Eps"
| "alts [r] = r"
| "alts (r # rs) = Alt r (alts rs)"

text \<open>A literal text, and the same under \<^verbatim>\<open>re.IGNORECASE\<close>.\<close>

definition lit :: "string \<Rightarrow> regex" where
  "lit s = seqs (map (\<lambda>c. Atom (\<lambda>d. d = c)) s)"

definition lit_i :: "string \<Rightarrow> regex" where
  "lit_i s = seqs (map (\<lambda>c. Atom (\<lambda>d. lower_char d = lower_char c)) s)"

definition is_digit :: "char \<Rightarrow> bool" where
  "is_digit c = (let n = (of_char c :: nat) in 48 \<le> n \<and> n \<le> 57)"

definition is_word :: "char \<Rightarrow> bool" where
  "is_word c =
     (let n = (of_char c :: nat)
      in (48 \<le> n \<and> n \<le> 57) \<or> (65 \<le> n \<and> n \<le> 90) \<or> (97 \<le> n \<and> n \<le> 122) \<or> n = 95)"

text \<open>\<^verbatim>\<open>\s\<close>, \<^verbatim>\<open>\d\<close>, \<^verbatim>\<open>\w\<close> and \<^verbatim>\<open>.\<close>\<close>

definition re_s :: regex where
  "re_s = Atom is_space"

definition re_d :: regex where
  "re_d = Atom is_digit"

definition re_w :: regex where
  "re_w = Atom is_word"

definition re_dot :: regex where
  "re_dot = Atom (\<lambda>c. c \<noteq> NL)"

text \<open>\<^verbatim>\<open>re.search(pattern, s)\<close> as a truth value: a match at some position.\<close>

fun re_search :: "regex \<Rightarrow> string \<Rightarrow> bool" where
  "re_search r [] = (rmatch r [] \<noteq> [])"
| "re_search r (c # s) = (rmatch r (c # s) \<noteq> [] \<or> re_search r s)"

text \<open>
  \<^verbatim>\<open>re.finditer(pattern, s)\<close>, as the list of the matched texts: the first match at
  the leftmost position, then on from its end. \<open>skip\<close> counts the characters of the
  last match still to pass. (The path pattern never matches the empty text.)
\<close>

fun finditer :: "regex \<Rightarrow> nat \<Rightarrow> string \<Rightarrow> string list" where
  "finditer r skip [] = []"
| "finditer r skip (c # s) =
     (if skip > 0 then finditer r (skip - 1) s
      else (case rmatch r (c # s) of
              [] \<Rightarrow> finditer r 0 s
            | t # _ \<Rightarrow>
                (let m = take (length (c # s) - length t) (c # s)
                 in m # finditer r (length m - 1) s)))"

section \<open>Paths and the file system\<close>

text \<open>
  \<^verbatim>\<open>pathlib.Path\<close> on a POSIX system: a path is its root (empty, one slash or exactly
  two slashes) and its parts; empty parts and single dots are dropped when the text is
  parsed, double dots are kept.
\<close>

fun split_slash :: "string \<Rightarrow> string list" where
  "split_slash [] = [[]]"
| "split_slash (c # cs) =
     (if c = CHR ''/'' then [] # split_slash cs
      else (case split_slash cs of
              [] \<Rightarrow> [[c]]
            | l # ls \<Rightarrow> (c # l) # ls))"

fun join_slash :: "string list \<Rightarrow> string" where
  "join_slash [] = []"
| "join_slash [l] = l"
| "join_slash (l # ls) = l @ CHR ''/'' # join_slash ls"

type_synonym path = "string \<times> string list"

definition Path :: "string \<Rightarrow> path" where
  "Path s =
     (if startswith s ''//'' \<and> \<not> startswith s ''///'' then ''//''
      else if startswith s ''/'' then ''/''
      else [],
      filter (\<lambda>p. p \<noteq> [] \<and> p \<noteq> ''.'') (split_slash s))"

text \<open>\<^verbatim>\<open>str(path)\<close>, \<^verbatim>\<open>path.name\<close> and \<^verbatim>\<open>path / text\<close>\<close>

definition path_str :: "path \<Rightarrow> string" where
  "path_str p = (if fst p = [] \<and> snd p = [] then ''.'' else fst p @ join_slash (snd p))"

definition path_name :: "path \<Rightarrow> string" where
  "path_name p = (if snd p = [] then [] else last (snd p))"

definition path_div :: "path \<Rightarrow> string \<Rightarrow> path" where
  "path_div p s = (if fst (Path s) \<noteq> [] then Path s else (fst p, snd p @ snd (Path s)))"

text \<open>
  The file system as the script sees it from its working directory: what is at a path.
  \<open>Unreadable\<close> stands for everything that exists and that \<^verbatim>\<open>read_text\<close> fails on
  (a directory, a file without read permission, bytes that do not decode).
  The user's home directory is part of the environment.
\<close>

datatype fs_node = Missing | Unreadable | File string

record env =
  fs :: "string \<Rightarrow> fs_node"
  home :: string

datatype fault = ReadFault

definition path_exists :: "env \<Rightarrow> path \<Rightarrow> bool" where
  "path_exists e p = (fs e (path_str p) \<noteq> Missing)"

definition read_text :: "env \<Rightarrow> path \<Rightarrow> fault + string" where
  "read_text e p =
     (case fs e (path_str p) of
        File content \<Rightarrow> Inr content
      | _ \<Rightarrow> Inl ReadFault)"

section \<open>validate_content\<close>

text \<open>The first pass: the lines that are neither in a code block nor in a table.\<close>

fun prose_loop :: "string list \<Rightarrow> bool \<Rightarrow> bool \<Rightarrow> string list \<Rightarrow> string list" where
  "prose_loop [] in_code_block in_table prose_content = prose_content"
| "prose_loop (line # rest) in_code_block in_table prose_content =
     (if startswith (strip line) ''```''
        then prose_loop rest (\<not> in_code_block) in_table prose_content
      else if in_code_block
        then prose_loop rest in_code_block in_table prose_content
      else if str_in ''|'' line \<and> startswith (strip line) ''|''
        then prose_loop rest in_code_block True prose_content
      else if in_table \<and> strip line = []
        then prose_loop rest in_code_block False prose_content
      else if in_table
        then prose_loop rest in_code_block in_table prose_content
      else prose_loop rest in_code_block in_table (prose_content @ [line]))"

text \<open>
  \<^verbatim>\<open>path_pattern = r'`(?:\./|\.\./|[\w\-]+/)+[\w\-./]+(?:\.\w+)?`'\<close>
\<close>

definition path_pattern :: regex where
  "path_pattern =
     seqs [lit ''`'',
           Plus (alts [lit ''./'', lit ''../'',
                       Seq (Plus (Atom (\<lambda>c. is_word c \<or> c = CHR ''-''))) (lit ''/'')]),
           Plus (Atom (\<lambda>c. is_word c \<or> c \<in> set ''-./'')),
           Opt (Seq (lit ''.'') (Plus re_w)),
           lit ''`'']"

definition skip_patterns :: "string list" where
  "skip_patterns =
     [''http://'', ''https://'', ''://'',
      ''npm run'', ''pip install'', ''cargo run'', ''go run'',
      ''pytest'', ''npm test'', ''npx'', ''uvicorn'',
      ''anchor'', ''solana'', ''git '',
      ''mcp__'', ''__'',
      ''else'', ''if '', ''for '', ''while '', ''return'']"

definition atypical_chars :: "char list" where
  "atypical_chars =
     [CHR ''('', CHR '')'', CHR ''{'', CHR ''}'', CHR ''<'', CHR ''>'', CHR 0x22, CHR 0x27]"

definition base_dirs :: "string list" where
  "base_dirs = [''.'', ''./frontend'', ''./gateway'', ''./programs'', ''./agents'']"

definition missing_path :: "string \<Rightarrow> ValidationIssue" where
  "missing_path path_ref =
     mk_issue ''content'' ''info'' (''Referenced path does not exist: '' @ path_ref)
       ''references''"

text \<open>The loop over the matches of the path pattern.\<close>

fun path_loop :: "env \<Rightarrow> string list \<Rightarrow> ValidationIssue list \<Rightarrow> ValidationIssue list" where
  "path_loop e [] issues = issues"
| "path_loop e (m # ms) issues =
     (let path_ref = strip_chars ''`'' m in
      if list_ex (\<lambda>x. str_in x (lower path_ref)) skip_patterns
        then path_loop e ms issues
      else if list_ex (\<lambda>c. c \<in> set path_ref) atypical_chars
        then path_loop e ms issues
      else if \<not> path_exists e (Path path_ref)
        then (let found = list_ex (\<lambda>base_dir. path_exists e (path_div (Path base_dir) path_ref))
                            base_dirs
              in if \<not> found \<and> count_char CHR ''/'' path_ref < 3
                 then path_loop e ms (issues @ [missing_path path_ref])
                 else path_loop e ms issues)
      else path_loop e ms issues)"

definition validate_content :: "env \<Rightarrow> string \<Rightarrow> ValidationIssue list \<Rightarrow> ValidationIssue list" where
  "validate_content e content issues =
     (let lines = split_nl content;
          prose_content = prose_loop lines False False [];
          prose_text = join_nl prose_content
      in path_loop e (finditer path_pattern 0 prose_text) issues)"

section \<open>validate_dynamic_content\<close>

text \<open>
  The pattern table, every pattern read under \<^verbatim>\<open>re.IGNORECASE\<close>, in the order of
  the source:
  \<^enum> \<^verbatim>\<open>\|\s*Status\s*\|\<close>
  \<^enum> \<^verbatim>\<open>\|\s*(pending|done|complete|in_progress|blocked)\s*\|\<close>
  \<^enum> \<^verbatim>\<open>##\s*(Implementation|Feature|Phase).*Status\<close>
  \<^enum> \<^verbatim>\<open>\[x\]|\[\s*\]\<close>
  \<^enum> \<^verbatim>\<open>TO-DO:|TODO:|FIXME:\<close>
  \<^enum> \<^verbatim>\<open>Phase\s+\d+.*:\s*(pending|done|complete)\<close>
\<close>

definition dynamic_patterns :: "(regex \<times> string) list" where
  "dynamic_patterns =
     [(seqs [lit_i ''|'', Star re_s, lit_i ''Status'', Star re_s, lit_i ''|''],
       ''Table has 'Status' column - dynamic data belongs in feature-list.json''),
      (seqs [lit_i ''|'', Star re_s,
             alts [lit_i ''pending'', lit_i ''done'', lit_i ''complete'', lit_i ''in_progress'',
                   lit_i ''blocked''],
             Star re_s, lit_i ''|''],
       ''Table contains status values - move to progress files''),
      (seqs [lit_i ''##'', Star re_s,
             alts [lit_i ''Implementation'', lit_i ''Feature'', lit_i ''Phase''],
             Star re_dot, lit_i ''Status''],
       ''Section title suggests status tracking''),
      (Alt (lit_i ''[x]'') (seqs [lit_i ''['', Star re_s, lit_i '']'']),
       ''Task checkboxes - use task tracker instead''),
      (alts [lit_i ''TO-DO:'', lit_i ''TODO:'', lit_i ''FIXME:''],
       ''Inline todos - use task tracker instead''),
      (seqs [lit_i ''Phase'', Plus re_s, Plus re_d, Star re_dot, lit_i '':'', Star re_s,
             alts [lit_i ''pending'', lit_i ''done'', lit_i ''complete'']],
       ''Phase status tracking - move to progress files'')]"

text \<open>The location \<^verbatim>\<open>f"line {i}"\<close>\<close>

definition line_location :: "nat \<Rightarrow> string" where
  "line_location i = ''line '' @ str_nat i"

definition dynamic_issue :: "string \<Rightarrow> nat \<Rightarrow> ValidationIssue" where
  "dynamic_issue message' i =
     mk_issue ''content'' ''warning'' (''Dynamic content detected: '' @ message')
       (line_location i)"

text \<open>The inner loop: the first pattern that matches the line reports, then \<^verbatim>\<open>break\<close>.\<close>

fun pattern_loop ::
    "(regex \<times> string) list \<Rightarrow> string \<Rightarrow> nat \<Rightarrow> ValidationIssue list \<Rightarrow> ValidationIssue list" where
  "pattern_loop [] line i issues = issues"
| "pattern_loop ((pattern, message') # rest) line i issues =
     (if re_search pattern line then issues @ [dynamic_issue message' i]
      else pattern_loop rest line i issues)"

text \<open>
  The outer loop, \<^verbatim>\<open>for i, line in enumerate(lines, 1)\<close>. The local \<^verbatim>\<open>in_code\<close> is
  unbound until the first fence line: \<open>None\<close> is the unbound local.
\<close>

fun dynamic_loop ::
    "nat \<Rightarrow> string list \<Rightarrow> bool option \<Rightarrow> ValidationIssue list \<Rightarrow> ValidationIssue list" where
  "dynamic_loop i [] in_code issues = issues"
| "dynamic_loop i (line # rest) in_code issues =
     (if startswith (strip line) ''```''
        then dynamic_loop (Suc i) rest
               (case in_code of None \<Rightarrow> Some True | Some b \<Rightarrow> Some (\<not> b)) issues
      else if (case in_code of None \<Rightarrow> False | Some b \<Rightarrow> b)
        then dynamic_loop (Suc i) rest in_code issues
      else dynamic_loop (Suc i) rest in_code (pattern_loop dynamic_patterns line i issues))"

definition validate_dynamic_content :: "string \<Rightarrow> ValidationIssue list \<Rightarrow> ValidationIssue list" where
  "validate_dynamic_content content issues = dynamic_loop 1 (split_nl content) None issues"

section \<open>detect_claude_type_from_content\<close>

definition detect_claude_type_from_content :: "env \<Rightarrow> string \<Rightarrow> path \<Rightarrow> string" where
  "detect_claude_type_from_content e content file_path =
     (let path = file_path in
      if path = path_div (path_div (Path (home e)) ''.claude'') ''CLAUDE.md'' then ''global''
      else if str_in ''.claude/rules'' (path_str path) then ''rules''
      else if path_name path = ''CLAUDE.local.md'' then ''local''
      else ''project'')"

section \<open>validate_file\<close>

text \<open>
  The dictionary \<^verbatim>\<open>result\<close>; the key \<^verbatim>\<open>type\<close> is absent when the file is not found.
\<close>

record result =
  valid :: bool
  rtype :: "string option"
  errors :: nat
  warnings :: nat
  info :: nat
  issues :: "ValidationIssue list"

text \<open>
  A run that returns: the dictionary it built, what it printed as JSON (only with
  \<^verbatim>\<open>--json\<close>; the human-readable rendering is not modelled) and the returned exit
  status.
\<close>

record run =
  built :: result
  printed :: "result option"
  exit_code :: int

definition not_found_result :: "string \<Rightarrow> result" where
  "not_found_result file_path =
     \<lparr>valid = False, rtype = None, errors = 1, warnings = 0, info = 0,
      issues = [mk_issue ''file'' ''error'' (''File not found: '' @ file_path) ''filesystem'']\<rparr>"

definition count_level :: "string \<Rightarrow> ValidationIssue list \<Rightarrow> nat" where
  "count_level l issues' = length (filter (\<lambda>i. level i = l) issues')"

text \<open>
  \<open>Inl\<close> is an exception that leaves \<^verbatim>\<open>validate_file\<close>: nothing in the script
  catches one.
\<close>

definition validate_file :: "env \<Rightarrow> string \<Rightarrow> bool \<Rightarrow> fault + run" where
  "validate_file e file_path json_output =
     (let path = Path file_path in
      if \<not> path_exists e path
      then (let result = not_found_result file_path
            in Inr \<lparr>built = result,
                    printed = (if json_output then Some result else None),
                    exit_code = 2\<rparr>)
      else
        (case read_text e path of
           Inl f \<Rightarrow> Inl f
         | Inr content \<Rightarrow>
             (let claude_type = detect_claude_type_from_content e content path;
                  require_frontmatter =
                    (str_in ''skills'' (path_str path) \<or> path_name path = ''SKILL.md'');
                  issues1 = snd (validate_frontmatter content [] require_frontmatter);
                  issues2 = validate_structure content claude_type issues1;
                  issues3 = validate_best_practices content claude_type issues2;
                  issues4 = validate_content e content issues3;
                  issues5 = validate_dynamic_content content issues4;
                  errors' = count_level ''error'' issues5;
                  warnings' = count_level ''warning'' issues5;
                  infos = count_level ''info'' issues5;
                  result = \<lparr>valid = (errors' = 0), rtype = Some claude_type,
                            errors = errors', warnings = warnings', info = infos,
                            issues = issues5\<rparr>
              in Inr \<lparr>built = result,
                      printed = (if json_output then Some result else None),
                      exit_code = (if errors' = 0 then 0
                                   else (if errors' > 0 then 2 else 1))\<rparr>)))"

section \<open>Notions used in the statements\<close>

text \<open>The required sections of a document kind, as \<^verbatim>\<open>REQUIRED_SECTIONS.get\<close> gives them.\<close>

definition required_sections :: "string \<Rightarrow> string list" where
  "required_sections claude_type =
     (case map_of REQUIRED_SECTIONS claude_type of None \<Rightarrow> [] | Some r \<Rightarrow> r)"

text \<open>\<^verbatim>\<open>Path.home() / ".claude" / "CLAUDE.md"\<close>\<close>

definition global_memory_file :: "env \<Rightarrow> path" where
  "global_memory_file e = path_div (path_div (Path (home e)) ''.claude'') ''CLAUDE.md''"

text \<open>
  A fence line is one whose stripped text starts with three backticks; a line is inside a
  fenced code block when an odd number of fence lines precede it.
\<close>

definition is_fence :: "string \<Rightarrow> bool" where
  "is_fence line = startswith (strip line) ''```''"

definition inside_code_block :: "string list \<Rightarrow> bool" where
  "inside_code_block pre = odd (length (filter is_fence pre))"

text \<open>The issues of a list whose location names line \<open>k\<close>.\<close>

definition at_line :: "nat \<Rightarrow> ValidationIssue list \<Rightarrow> ValidationIssue list" where
  "at_line k acc = filter (\<lambda>i. location i = Some (line_location k)) acc"

text \<open>One round of the outer loop of the dynamic-content scan: the next state and the output.\<close>

definition next_in_code :: "bool option \<Rightarrow> string \<Rightarrow> bool option" where
  "next_in_code st line =
     (if is_fence line then (case st of None \<Rightarrow> Some True | Some b \<Rightarrow> Some (\<not> b)) else st)"

definition line_out :: "bool option \<Rightarrow> string \<Rightarrow> nat \<Rightarrow> ValidationIssue list" where
  "line_out st line i =
     (if is_fence line \<or> st = Some True then [] else pattern_loop dynamic_patterns line i [])"

text \<open>The fourth pattern of the table.\<close>

definition checkbox_pattern :: regex where
  "checkbox_pattern = Alt (lit_i ''[x]'') (seqs [lit_i ''['', Star re_s, lit_i '']''])"

text \<open>
  An example environment: a readable \<^verbatim>\<open>CLAUDE.md\<close> with the text \<^verbatim>\<open>x\<close>, a directory
  \<^verbatim>\<open>docs\<close>, nothing else; and an example document with a checkbox outside and one
  inside a code block.
\<close>

definition demo_env :: env where
  "demo_env =
     \<lparr>fs = (\<lambda>p. if p = ''CLAUDE.md'' then File ''x''
                 else if p = ''docs'' then Unreadable
                 else Missing),
      home = ''/home/u''\<rparr>"

definition demo_doc :: string where
  "demo_doc = ''- [ ] task'' @ [NL] @ ''```'' @ [NL] @ ''[x]'' @ [NL] @ ''```''"

text \<open>The texts the path pattern finds in the prose, without their backticks.\<close>

definition candidates :: "string \<Rightarrow> string list" where
  "candidates content =
     map (strip_chars ''`'')
       (finditer path_pattern 0 (join_nl (prose_loop (split_nl content) False False [])))"

text \<open>The test a candidate passes, in the loop over the matches, to be reported.\<close>

definition reported :: "env \<Rightarrow> string \<Rightarrow> bool" where
  "reported e path_ref =
     (\<not> list_ex (\<lambda>x. str_in x (lower path_ref)) skip_patterns \<and>
      \<not> list_ex (\<lambda>c. c \<in> set path_ref) atypical_chars \<and>
      \<not> path_exists e (Path path_ref) \<and>
      \<not> list_ex (\<lambda>base_dir. path_exists e (path_div (Path base_dir) path_ref)) base_dirs \<and>
      count_char CHR ''/'' path_ref < 3)"

text \<open>A prose line with two path references, the second with a test-runner name in it.\<close>

definition demo_prose :: string where
  "demo_prose = ''see `src/foo.py` and `tests/pytest.ini`''"

section \<open>The validation result and the exit status\<close>

text \<open>
  Claim C1. In every run that returns a result, \<open>valid\<close> is true exactly when the count of
  errors is zero, and that count is the number of issues of level \<^verbatim>\<open>error\<close>: issues of
  the levels \<^verbatim>\<open>warning\<close> and \<^verbatim>\<open>info\<close> do not enter.
\<close>

theorem validate_file_valid_iff_no_errors:
  "validate_file e p j = Inr r \<Longrightarrow>
   valid (built r) = (errors (built r) = 0) \<and>
   errors (built r) = count_level ''error'' (issues (built r)) \<and>
   valid (built r) = (filter (\<lambda>i. level i = ''error'') (issues (built r)) = [])"
  by (auto simp: validate_file_def Let_def not_found_result_def count_level_def mk_issue_def
           split: if_splits sum.splits)

theorem validate_file_valid_witness:
  "(case validate_file demo_env ''CLAUDE.md'' True of
      Inl f \<Rightarrow> False
    | Inr r \<Rightarrow> valid (built r) \<and> errors (built r) = 0 \<and> warnings (built r) = 1)"
proof -
  have "case validate_file demo_env ''CLAUDE.md'' True of
          Inl f \<Rightarrow> False | Inr r \<Rightarrow> warnings (built r) = 1 \<and> errors (built r) = 0"
    by code_simp
  then obtain r where h: "validate_file demo_env ''CLAUDE.md'' True = Inr r"
    and w: "warnings (built r) = 1" "errors (built r) = 0"
    by (auto split: sum.splits)
  from validate_file_valid_iff_no_errors [OF h] w show ?thesis using h by simp
qed





section \<open>Frontmatter\<close>

lemma find_closing_None: "(find_closing i ls = None) = (\<forall>l\<in>set ls. strip l \<noteq> ''---'')"
  by (induction ls arbitrary: i) auto

text \<open>
  Claim C4, as stated, fails: the documents \<^verbatim>\<open>----\<close> and \<^verbatim>\<open>--- x\<close> do not begin with
  a line of exactly three hyphens, yet the opening check lets them pass and the error
  reported is the missing closing fence.
\<close>

theorem four_hyphens_pass_opening_check:
  "hd (split_nl ''----'') \<noteq> ''---'' \<and>
   validate_frontmatter ''----'' [] True = (False, [missing_closing]) \<and>
   hd (split_nl ''--- x'') \<noteq> ''---'' \<and>
   validate_frontmatter ''--- x'' [] True = (False, [missing_closing]) \<and>
   missing_closing \<noteq> missing_opening"
  by code_simp

text \<open>
  Claim C4, amended. When frontmatter is required and the text of the document does not
  start with the three characters \<^verbatim>\<open>---\<close>, the validator appends exactly the error
  for the missing opening fence and returns; when the text starts with \<^verbatim>\<open>---\<close>
  (as \<^verbatim>\<open>----\<close> and \<^verbatim>\<open>--- x\<close> do) that error is not emitted.
\<close>

theorem opening_fence_is_prefix_check:
  "(\<not> startswith content ''---'' \<longrightarrow>
      validate_frontmatter content acc True = (False, acc @ [missing_opening])) \<and>
   (startswith content ''---'' \<longrightarrow>
      missing_opening \<notin> set (snd (validate_frontmatter content [] True)))"
  by (auto simp: validate_frontmatter_def Let_def missing_opening_def missing_closing_def
        missing_name_def missing_description_def angle_brackets_def mk_issue_def
        split: option.splits)

theorem opening_fence_is_prefix_check_witness:
  "\<not> startswith ''# Title'' ''---'' \<and>
   validate_frontmatter ''# Title'' [] True = (False, [missing_opening]) \<and>
   startswith ''----'' ''---'' \<and>
   missing_opening \<notin> set (snd (validate_frontmatter ''----'' [] True))"
proof -
  have a: "\<not> startswith ''# Title'' ''---''" by code_simp
  have b: "startswith ''----'' ''---''" by code_simp
  from opening_fence_is_prefix_check [of "''# Title''" "[]"]
       opening_fence_is_prefix_check [of "''----''" "[]"] a b
  show ?thesis by simp
qed

text \<open>
  Claim C10. When frontmatter is required, the text starts with \<^verbatim>\<open>---\<close> and no line
  after the first is a fence, the validator appends exactly the error for the missing
  closing fence: the first line is never taken as the closing fence, and no issue about
  the name, the description or angle brackets is emitted.
\<close>

theorem opening_fence_never_closes:
  "startswith content ''---'' \<Longrightarrow>
   \<forall>l \<in> set (drop 1 (split_nl content)). strip l \<noteq> ''---'' \<Longrightarrow>
   validate_frontmatter content acc True = (False, acc @ [missing_closing])"
  using find_closing_None [of 1 "drop 1 (split_nl content)"]
  by (simp add: validate_frontmatter_def Let_def)

theorem opening_fence_never_closes_witness:
  "startswith ''---'' ''---'' \<and>
   drop 1 (split_nl ''---'') = [] \<and>
   validate_frontmatter ''---'' [] True = (False, [missing_closing])"
proof -
  have a: "startswith ''---'' ''---''" by code_simp
  have c: "drop 1 (split_nl ''---'') = []" by simp
  then have b: "\<forall>l \<in> set (drop 1 (split_nl ''---'')). strip l \<noteq> ''---''" by simp
  from opening_fence_never_closes [OF a b, of "[]"] a c show ?thesis by simp
qed

section \<open>Structure\<close>

lemma headings_empty:
  "(headings lines = []) = (filter (\<lambda>l. startswith l ''##'') lines = [])"
  unfolding headings_def filter_empty_conv
  by (simp add: Ball_def in_set_conv_nth) blast

lemma required_loop_eq:
  "required_loop req content acc =
     acc @ map missing_section (filter (\<lambda>s. \<not> str_in s content) req)"
  by (induction req arbitrary: acc) auto

text \<open>
  Claim C5, as stated, fails: the documents \<^verbatim>\<open>### Notes\<close> and \<^verbatim>\<open>##Notes\<close> have no
  line that starts with \<^verbatim>\<open>## \<close>, and receive no warning.
\<close>

theorem deeper_heading_counts:
  "filter (\<lambda>l. startswith l ''## '') (split_nl ''### Notes'') = [] \<and>
   validate_structure ''### Notes'' ''project'' [] = [] \<and>
   filter (\<lambda>l. startswith l ''## '') (split_nl ''##Notes'') = [] \<and>
   validate_structure ''##Notes'' ''project'' [] = []"
  by code_simp

text \<open>
  Claim C5, amended. The structural validator counts the lines that start with the two
  characters \<^verbatim>\<open>##\<close> (whatever follows them) and appends the warning about missing
  section headings exactly when there is none; after it come the warnings for the
  required sections that the text does not contain.
\<close>

theorem validate_structure_issues:
  "validate_structure content claude_type acc =
     acc
     @ (if filter (\<lambda>l. startswith l ''##'') (split_nl content) = [] then [no_headings] else [])
     @ map missing_section (filter (\<lambda>s. \<not> str_in s content) (required_sections claude_type))"
  by (simp add: validate_structure_def Let_def required_loop_eq headings_empty
        required_sections_def)

section \<open>Classification\<close>

text \<open>
  Claim C6, as stated, fails: \<^verbatim>\<open>rules/foo.md\<close> and \<^verbatim>\<open>docs/rules/CLAUDE.local.md\<close> are
  under a directory named \<^verbatim>\<open>rules\<close> and classify as \<^verbatim>\<open>project\<close> and \<^verbatim>\<open>local\<close>.
\<close>

theorem rules_directory_not_rules:
  "''rules'' \<in> set (butlast (snd (Path ''rules/foo.md''))) \<and>
   detect_claude_type_from_content demo_env ''x'' (Path ''rules/foo.md'') = ''project'' \<and>
   ''rules'' \<in> set (butlast (snd (Path ''docs/rules/CLAUDE.local.md''))) \<and>
   detect_claude_type_from_content demo_env ''x'' (Path ''docs/rules/CLAUDE.local.md'')
     = ''local''"
  by code_simp

text \<open>
  Claim C6, amended. Every path classifies as exactly one of the four kinds, decided in
  this order: the global memory file is \<^verbatim>\<open>global\<close>; otherwise a path whose text
  contains \<^verbatim>\<open>.claude/rules\<close> is \<^verbatim>\<open>rules\<close>, whatever its file name; otherwise the
  file name \<^verbatim>\<open>CLAUDE.local.md\<close> is \<^verbatim>\<open>local\<close>; otherwise \<^verbatim>\<open>project\<close>.
\<close>

theorem detect_claude_type_cases:
  "detect_claude_type_from_content e content p
     \<in> set [''global'', ''rules'', ''local'', ''project''] \<and>
   (detect_claude_type_from_content e content p = ''global'') = (p = global_memory_file e) \<and>
   (detect_claude_type_from_content e content p = ''rules'') =
     (p \<noteq> global_memory_file e \<and> str_in ''.claude/rules'' (path_str p)) \<and>
   (detect_claude_type_from_content e content p = ''local'') =
     (p \<noteq> global_memory_file e \<and> \<not> str_in ''.claude/rules'' (path_str p) \<and>
      path_name p = ''CLAUDE.local.md'') \<and>
   (detect_claude_type_from_content e content p = ''project'') =
     (p \<noteq> global_memory_file e \<and> \<not> str_in ''.claude/rules'' (path_str p) \<and>
      path_name p \<noteq> ''CLAUDE.local.md'')"
  by (simp add: detect_claude_type_from_content_def Let_def global_memory_file_def)

section \<open>Best practices\<close>

text \<open>
  Claim C7. The code departs from it: a run of three bullet lines with pipes that ends
  with the last line of the document is never moved to \<^verbatim>\<open>bullet_sections\<close>, so no
  issue is emitted; the same run followed by a line break is counted.
\<close>

theorem trailing_bullet_run_not_counted:
  "validate_best_practices (''- a|b'' @ [NL] @ ''- c|d'' @ [NL] @ ''- e|f'') ''project'' [] = [] \<and>
   validate_best_practices (''- a|b'' @ [NL] @ ''- c|d'' @ [NL] @ ''- e|f'' @ [NL]) ''project'' []
     = [bullet_issue 1]"
  by code_simp

section \<open>Dynamic content\<close>

subsection \<open>Decimal rendering is injective\<close>

lemma digit_char_inj: "a < 10 \<Longrightarrow> b < 10 \<Longrightarrow> digit_char a = digit_char b \<Longrightarrow> a = b"
  by (simp add: digit_char_def char_of_eq_iff take_bit_eq_mod)

lemma str_nat_small: "n < 10 \<Longrightarrow> str_nat n = [digit_char n]"
  by (simp add: str_nat.simps)

lemma str_nat_big: "\<not> n < 10 \<Longrightarrow> str_nat n = str_nat (n div 10) @ [digit_char (n mod 10)]"
  by (subst str_nat.simps) simp

lemma str_nat_nonempty: "str_nat n \<noteq> []" "[] \<noteq> str_nat n"
  by (subst str_nat.simps, simp)+

lemma str_nat_inj: "str_nat m = str_nat n \<Longrightarrow> m = n"
proof (induction m arbitrary: n rule: str_nat.induct)
  case (1 m)
  show ?case
  proof (cases "m < 10")
    case True
    have "n < 10"
    proof (rule ccontr)
      assume "\<not> n < 10"
      with 1(2) True show False
        by (simp add: str_nat_small str_nat_big str_nat_nonempty)
    qed
    with True 1(2) show ?thesis
      by (auto simp: str_nat_small dest: digit_char_inj)
  next
    case False
    have nb: "\<not> n < 10"
    proof
      assume "n < 10"
      with 1(2) False show False
        by (simp add: str_nat_small str_nat_big str_nat_nonempty)
    qed
    from 1(2) False nb have e: "str_nat (m div 10) = str_nat (n div 10)"
      and d: "digit_char (m mod 10) = digit_char (n mod 10)"
      by (simp_all add: str_nat_big)
    from 1(1) [OF False e] have "m div 10 = n div 10" .
    moreover from d have "m mod 10 = n mod 10"
      using digit_char_inj [of "m mod 10" "n mod 10"] by simp
    ultimately show ?thesis
      by (metis div_mult_mod_eq)
  qed
qed

lemma dynamic_issue_location:
  "(location (dynamic_issue m k) = Some (line_location j)) = (k = j)"
  by (auto simp: dynamic_issue_def mk_issue_def line_location_def dest: str_nat_inj)

subsection \<open>The inner loop\<close>

lemma pattern_loop_acc: "pattern_loop ps line i acc = acc @ pattern_loop ps line i []"
  by (induction ps) auto

lemma pattern_loop_find:
  "pattern_loop ps line i [] =
     (case find (\<lambda>pm. re_search (fst pm) line) ps of
        None \<Rightarrow> []
      | Some pm \<Rightarrow> [dynamic_issue (snd pm) i])"
  by (induction ps) auto

lemma pattern_loop_shape:
  "pattern_loop ps line i [] = [] \<or> (\<exists>m. pattern_loop ps line i [] = [dynamic_issue m i])"
  by (auto simp: pattern_loop_find split: option.splits)

lemma pattern_loop_hit:
  "(p, m) \<in> set ps \<Longrightarrow> re_search p line \<Longrightarrow> \<exists>m'. pattern_loop ps line i [] = [dynamic_issue m' i]"
  by (auto simp: pattern_loop_find find_None_iff split: option.splits)

subsection \<open>The outer loop\<close>

lemma dynamic_loop_Cons:
  "dynamic_loop i (line # rest) st acc =
     dynamic_loop (Suc i) rest (next_in_code st line) (acc @ line_out st line i)"
  using pattern_loop_acc [of dynamic_patterns line i acc]
  by (auto simp: next_in_code_def line_out_def is_fence_def split: option.splits)

lemma dynamic_loop_acc: "dynamic_loop i ls st acc = acc @ dynamic_loop i ls st []"
proof (induction ls arbitrary: i st acc)
  case Nil
  show ?case by simp
next
  case (Cons line rest)
  have "dynamic_loop i (line # rest) st acc =
          (acc @ line_out st line i) @ dynamic_loop (Suc i) rest (next_in_code st line) []"
    unfolding dynamic_loop_Cons by (rule Cons.IH)
  also have "\<dots> = acc @ dynamic_loop i (line # rest) st []"
    unfolding dynamic_loop_Cons
    using Cons.IH [of "Suc i" "next_in_code st line" "[] @ line_out st line i"] by simp
  finally show ?case .
qed

lemma dynamic_loop_split:
  "dynamic_loop i (pre @ line # post) st [] =
     dynamic_loop i pre st []
     @ line_out (foldl next_in_code st pre) line (i + length pre)
     @ dynamic_loop (Suc (i + length pre)) post
         (next_in_code (foldl next_in_code st pre) line) []"
proof (induction pre arbitrary: i st)
  case Nil
  show ?case
    unfolding append_Nil dynamic_loop_Cons
    using dynamic_loop_acc [of "Suc i" post "next_in_code st line" "[] @ line_out st line i"]
    by simp
next
  case (Cons l pre)
  show ?case
    unfolding append_Cons dynamic_loop_Cons
    using dynamic_loop_acc [of "Suc i" "pre @ line # post" "next_in_code st l" "[] @ line_out st l i"]
          dynamic_loop_acc [of "Suc i" pre "next_in_code st l" "[] @ line_out st l i"]
          Cons.IH [of "Suc i" "next_in_code st l"]
    by simp
qed

lemma dynamic_loop_lines:
  "x \<in> set (dynamic_loop i ls st []) \<Longrightarrow> \<exists>k m. i \<le> k \<and> k < i + length ls \<and> x = dynamic_issue m k"
proof (induction ls arbitrary: i st)
  case Nil
  then show ?case by simp
next
  case (Cons line rest)
  from Cons.prems
  have "x \<in> set (line_out st line i) \<or> x \<in> set (dynamic_loop (Suc i) rest (next_in_code st line) [])"
    unfolding dynamic_loop_Cons
    using dynamic_loop_acc [of "Suc i" rest "next_in_code st line" "[] @ line_out st line i"]
    by auto
  then show ?case
  proof
    assume "x \<in> set (line_out st line i)"
    then have "\<exists>m. x = dynamic_issue m i"
      using pattern_loop_shape [of dynamic_patterns line i]
      by (auto simp: line_out_def split: if_splits)
    then show ?thesis by auto
  next
    assume "x \<in> set (dynamic_loop (Suc i) rest (next_in_code st line) [])"
    from Cons.IH [OF this] obtain k m
      where "Suc i \<le> k" "k < Suc i + length rest" "x = dynamic_issue m k"
      by blast
    then have "i \<le> k \<and> k < i + length (line # rest) \<and> x = dynamic_issue m k"
      by simp
    then show ?thesis by blast
  qed
qed

lemma at_line_other:
  "\<forall>x \<in> set xs. \<exists>k m. k \<noteq> j \<and> x = dynamic_issue m k \<Longrightarrow> at_line j xs = []"
  by (auto simp: at_line_def filter_empty_conv dynamic_issue_location)

lemma at_line_same:
  "\<forall>x \<in> set xs. \<exists>m. x = dynamic_issue m j \<Longrightarrow> at_line j xs = xs"
  by (auto simp: at_line_def filter_id_conv dynamic_issue_location)

lemma at_line_append: "at_line j (xs @ ys) = at_line j xs @ at_line j ys"
  by (simp add: at_line_def)

lemma in_code_state:
  "(foldl next_in_code st pre = Some True) =
     ((st = Some True) \<noteq> odd (length (filter is_fence pre)))"
  by (induction pre arbitrary: st) (auto simp: next_in_code_def split: option.splits)

lemma at_line_dynamic:
  "at_line (Suc (length pre)) (dynamic_loop 1 (pre @ line # post) None []) =
     line_out (foldl next_in_code None pre) line (Suc (length pre))"
proof -
  have a: "at_line (Suc (length pre)) (dynamic_loop 1 pre None []) = []"
  proof (rule at_line_other, rule ballI)
    fix x assume "x \<in> set (dynamic_loop 1 pre None [])"
    from dynamic_loop_lines [OF this] obtain k m
      where "k < 1 + length pre" "x = dynamic_issue m k"
      by blast
    then have "k \<noteq> Suc (length pre) \<and> x = dynamic_issue m k" by simp
    then show "\<exists>k m. k \<noteq> Suc (length pre) \<and> x = dynamic_issue m k" by blast
  qed
  have c: "at_line (Suc (length pre))
             (dynamic_loop (Suc (1 + length pre)) post
                (next_in_code (foldl next_in_code None pre) line) []) = []"
  proof (rule at_line_other, rule ballI)
    fix x
    assume "x \<in> set (dynamic_loop (Suc (1 + length pre)) post
                      (next_in_code (foldl next_in_code None pre) line) [])"
    from dynamic_loop_lines [OF this] obtain k m
      where "Suc (1 + length pre) \<le> k" "x = dynamic_issue m k"
      by blast
    then have "k \<noteq> Suc (length pre) \<and> x = dynamic_issue m k" by simp
    then show "\<exists>k m. k \<noteq> Suc (length pre) \<and> x = dynamic_issue m k" by blast
  qed
  have b: "at_line (Suc (length pre)) (line_out (foldl next_in_code None pre) line (Suc (length pre)))
             = line_out (foldl next_in_code None pre) line (Suc (length pre))"
    by (rule at_line_same)
       (use pattern_loop_shape [of dynamic_patterns line "Suc (length pre)"]
        in \<open>auto simp: line_out_def\<close>)
  show ?thesis
    unfolding dynamic_loop_split at_line_append using a b c by simp
qed



lemma checkbox_in_table:
  "(checkbox_pattern, ''Task checkboxes - use task tracker instead'') \<in> set dynamic_patterns"
  by (simp add: dynamic_patterns_def checkbox_pattern_def)

lemma startswith_append: "startswith s p \<Longrightarrow> \<exists>rest. s = p @ rest"
  unfolding startswith_def by (metis append_take_drop_id)

lemma checkbox_x: "rmatch checkbox_pattern (''[x]'' @ rest) \<noteq> []"
  by (simp add: checkbox_pattern_def lit_i_def seqs_def)

lemma star_space: "rmatch (Star re_s) (CHR '' '' # CHR '']'' # rest) = [CHR '']'' # rest, CHR '' '' # CHR '']'' # rest]"
  by (simp add: re_s_def is_space_def)

lemma checkbox_blank: "rmatch checkbox_pattern (''[ ]'' @ rest) \<noteq> []"
  by (simp add: checkbox_pattern_def lit_i_def seqs_def star_space del: rmatch.simps(5))

lemma checkbox_search:
  "str_in ''[ ]'' line \<or> str_in ''[x]'' line \<Longrightarrow> re_search checkbox_pattern line"
proof (induction line)
  case Nil
  then show ?case by simp
next
  case (Cons c cs)
  show ?case
  proof (cases "startswith (c # cs) ''[ ]'' \<or> startswith (c # cs) ''[x]''")
    case True
    then have "rmatch checkbox_pattern (c # cs) \<noteq> []"
      using checkbox_x checkbox_blank by (metis startswith_append)
    then show ?thesis by simp
  next
    case False
    with Cons.prems have "str_in ''[ ]'' cs \<or> str_in ''[x]'' cs" by simp
    from Cons.IH [OF this] show ?thesis by simp
  qed
qed

lemma validate_dynamic_content_acc:
  "validate_dynamic_content content acc = acc @ validate_dynamic_content content []"
  unfolding validate_dynamic_content_def by (rule dynamic_loop_acc)

text \<open>
  Claim C8. Let the lines of the document be \<open>pre\<close>, then \<open>line\<close>, then \<open>post\<close>, so
  that \<open>line\<close> has the number \<open>length pre + 1\<close>. The detector only appends issues. If
  \<open>line\<close> is not a fence line, is outside every fenced code block and contains
  \<^verbatim>\<open>[ ]\<close> or \<^verbatim>\<open>[x]\<close>, then exactly one of the appended issues names that line, and it
  has the category \<^verbatim>\<open>content\<close> and the level \<^verbatim>\<open>warning\<close>. If \<open>line\<close> is inside a fenced
  code block, no appended issue names it. In every case at most one appended issue names
  the line.
\<close>

theorem checkbox_line_one_warning:
  assumes "split_nl content = pre @ line # post"
  shows "validate_dynamic_content content acc = acc @ validate_dynamic_content content [] \<and>
    (\<not> is_fence line \<and> \<not> inside_code_block pre \<and> (str_in ''[ ]'' line \<or> str_in ''[x]'' line) \<longrightarrow>
       (\<exists>m. at_line (Suc (length pre)) (validate_dynamic_content content []) =
               [mk_issue ''content'' ''warning'' m (line_location (Suc (length pre)))])) \<and>
    (inside_code_block pre \<longrightarrow>
       at_line (Suc (length pre)) (validate_dynamic_content content []) = []) \<and>
    length (at_line (Suc (length pre)) (validate_dynamic_content content [])) \<le> 1"
proof -
  let ?k = "Suc (length pre)"
  let ?st = "foldl next_in_code None pre"
  have out: "at_line ?k (validate_dynamic_content content []) = line_out ?st line ?k"
    unfolding validate_dynamic_content_def assms by (rule at_line_dynamic)
  have st: "(?st = Some True) = inside_code_block pre"
    by (simp add: in_code_state inside_code_block_def)
  have a: "\<exists>m. line_out ?st line ?k = [mk_issue ''content'' ''warning'' m (line_location ?k)]"
    if "\<not> is_fence line" "\<not> inside_code_block pre" "str_in ''[ ]'' line \<or> str_in ''[x]'' line"
  proof -
    from that(3) have "re_search checkbox_pattern line" by (rule checkbox_search)
    from pattern_loop_hit [OF checkbox_in_table this, of ?k] that(1,2) st
    show ?thesis by (auto simp: line_out_def dynamic_issue_def)
  qed
  have b: "line_out ?st line ?k = []" if "inside_code_block pre"
    using that st by (simp add: line_out_def)
  have c: "length (line_out ?st line ?k) \<le> 1"
    using pattern_loop_shape [of dynamic_patterns line ?k] by (auto simp: line_out_def)
  show ?thesis
    unfolding out using a b c validate_dynamic_content_acc [of content acc] by blast
qed

theorem checkbox_line_one_warning_witness:
  "split_nl demo_doc = [] @ ''- [ ] task'' # [''```'', ''[x]'', ''```''] \<and>
   \<not> is_fence ''- [ ] task'' \<and> \<not> inside_code_block [] \<and> str_in ''[ ]'' ''- [ ] task'' \<and>
   length (at_line 1 (validate_dynamic_content demo_doc [])) = 1 \<and>
   split_nl demo_doc = [''- [ ] task'', ''```''] @ ''[x]'' # [''```''] \<and>
   inside_code_block [''- [ ] task'', ''```''] \<and>
   at_line 3 (validate_dynamic_content demo_doc []) = []"
proof -
  have s1: "split_nl demo_doc = [] @ ''- [ ] task'' # [''```'', ''[x]'', ''```'']"
    by code_simp
  have s2: "split_nl demo_doc = [''- [ ] task'', ''```''] @ ''[x]'' # [''```'']"
    by code_simp
  have h1a: "\<not> is_fence ''- [ ] task''" by code_simp
  have h1b: "\<not> inside_code_block []" by (simp add: inside_code_block_def)
  have h1c: "str_in ''[ ]'' ''- [ ] task''" by code_simp
  have h2: "inside_code_block [''- [ ] task'', ''```'']" by code_simp
  note t1 = checkbox_line_one_warning [OF s1, of "[]"]
  note t2 = checkbox_line_one_warning [OF s2, of "[]"]
  from t1 h1a h1b h1c
  obtain m where "at_line (Suc (length ([]::string list))) (validate_dynamic_content demo_doc []) =
               [mk_issue ''content'' ''warning'' m (line_location (Suc (length ([]::string list))))]"
    by blast
  then have a: "length (at_line 1 (validate_dynamic_content demo_doc [])) = 1" by simp
  from t2 h2
  have "at_line (Suc (length [''- [ ] task'', ''```''])) (validate_dynamic_content demo_doc []) = []"
    by blast
  then have b: "at_line 3 (validate_dynamic_content demo_doc []) = []"
    by (simp add: numeral_3_eq_3)
  show ?thesis
    by (intro conjI s1 h1a h1b h1c a s2 h2 b)
qed

section \<open>Path references\<close>

lemma path_loop_eq:
  "path_loop e ms acc = acc @ map missing_path (filter (reported e) (map (strip_chars ''`'') ms))"
  by (induction ms arbitrary: acc) (simp_all add: Let_def reported_def)

lemma validate_content_eq:
  "validate_content e content acc = acc @ map missing_path (filter (reported e) (candidates content))"
  by (simp add: validate_content_def Let_def path_loop_eq candidates_def)

lemma startswith_lower: "startswith s x \<Longrightarrow> startswith (lower s) (lower x)"
  unfolding startswith_def lower_def by (metis length_map take_map)

lemma str_in_lower: "str_in x p \<Longrightarrow> str_in (lower x) (lower p)"
proof (induction p)
  case Nil
  then show ?case by (simp add: lower_def)
next
  case (Cons c cs)
  from Cons.prems have "startswith (c # cs) x \<or> str_in x cs" by simp
  then show ?case
  proof
    assume "startswith (c # cs) x"
    from startswith_lower [OF this] show ?thesis by (simp add: lower_def)
  next
    assume "str_in x cs"
    from Cons.IH [OF this] show ?thesis by (simp add: lower_def)
  qed
qed

lemma skip_patterns_lower: "x \<in> set skip_patterns \<Longrightarrow> lower x = x"
  by (auto simp: skip_patterns_def lower_def lower_char_def)

lemma missing_path_inj: "missing_path p = missing_path q \<Longrightarrow> p = q"
  by (simp add: missing_path_def mk_issue_def)

text \<open>
  Claim C9. The content validator only appends issues, and every issue it appends reports
  a candidate path whose text contains no entry of the exclusion list, neither as
  written nor after lower-casing: a code span with a URL scheme marker, a command prefix,
  a tool-namespacing marker or a control-flow keyword of the list is never reported as a
  missing path, whatever the file system holds.
\<close>

theorem excluded_spans_never_reported:
  "validate_content e content acc = acc @ validate_content e content [] \<and>
   (\<forall>iss \<in> set (validate_content e content []).
      \<exists>p. iss = missing_path p \<and> p \<in> set (candidates content) \<and>
          (\<forall>x \<in> set skip_patterns. \<not> str_in x (lower p) \<and> \<not> str_in x p))"
proof -
  have a: "validate_content e content acc = acc @ validate_content e content []"
    by (simp add: validate_content_eq)
  have b: "\<exists>p. iss = missing_path p \<and> p \<in> set (candidates content) \<and>
          (\<forall>x \<in> set skip_patterns. \<not> str_in x (lower p) \<and> \<not> str_in x p)"
    if "iss \<in> set (validate_content e content [])" for iss
  proof -
    from that obtain p where p: "iss = missing_path p" "p \<in> set (candidates content)" "reported e p"
      by (auto simp: validate_content_eq)
    from p(3) have l: "\<forall>x \<in> set skip_patterns. \<not> str_in x (lower p)"
      by (simp add: reported_def list_ex_iff)
    have "\<not> str_in x p" if "x \<in> set skip_patterns" for x
      using l that str_in_lower [of x p] skip_patterns_lower [OF that] by auto
    with l p(1,2) show ?thesis by blast
  qed
  from a b show ?thesis by blast
qed

theorem excluded_spans_never_reported_witness:
  "validate_content demo_env demo_prose [] = [missing_path ''src/foo.py''] \<and>
   candidates demo_prose = [''src/foo.py'', ''tests/pytest.ini''] \<and>
   str_in ''pytest'' ''tests/pytest.ini'' \<and>
   missing_path ''tests/pytest.ini'' \<notin> set (validate_content demo_env demo_prose [])"
proof -
  have a: "validate_content demo_env demo_prose [] = [missing_path ''src/foo.py'']"
    by code_simp
  have b: "candidates demo_prose = [''src/foo.py'', ''tests/pytest.ini'']"
    by code_simp
  have c: "str_in ''pytest'' ''tests/pytest.ini''"
    by code_simp
  have k: "''pytest'' \<in> set skip_patterns"
    by (simp add: skip_patterns_def)
  have d: "missing_path ''tests/pytest.ini'' \<notin> set (validate_content demo_env demo_prose [])"
  proof
    assume "missing_path ''tests/pytest.ini'' \<in> set (validate_content demo_env demo_prose [])"
    with excluded_spans_never_reported [of demo_env demo_prose "[]"]
    obtain p where p: "missing_path ''tests/pytest.ini'' = missing_path p"
      and n: "\<forall>x \<in> set skip_patterns. \<not> str_in x (lower p) \<and> \<not> str_in x p"
      by blast
    from missing_path_inj [OF p] have "p = ''tests/pytest.ini''" by simp
    with n k c show False by blast
  qed
  show ?thesis by (intro conjI a b c d)
qed

end
